theory Spec2Isabelle
  imports Complex_Main "HOL-Library.Char_ord" "HOL-Library.List_Lexorder"
begin

section \<open>Python values and built-ins used by \<open>process_wells.py\<close>\<close>

text \<open>
  The script reads a CSV file with \<open>csv.DictReader\<close>, turns each row into a compact
  well record, groups the records by county and writes three kinds of JSON documents.
  This theory embeds the script: the built-ins it calls (\<open>float\<close>, \<open>int\<close>,
  \<open>round\<close>, \<open>str.strip\<close>, \<open>str.split\<close>, \<open>str.lower\<close>, \<open>str.replace\<close>,
  \<open>min\<close>, \<open>max\<close>), the two parsing helpers \<open>parse_float\<close> and \<open>parse_int\<close>,
  and the body of \<open>process_wells\<close>.

  Modelling decisions.
  \<^item> A Python \<open>str\<close> is a \<open>string\<close>; the built-ins are modelled on ASCII text
    (the white space, digits and letters of ASCII).
  \<^item> A Python \<open>float\<close> is \<open>pyfloat\<close>: a finite value carried as an exact
    rational, the two infinities, or NaN. The binary rounding of finite values is
    not modelled; overflow to infinity is.
  \<^item> A raised exception is the \<open>Inl\<close> of a sum; \<open>try\<close>/\<open>except\<close> is a case
    distinction on the exception raised.
\<close>

datatype py_error =
  ValueError | TypeError | OverflowError | AttributeError | IndexError | ZeroDivisionError

datatype pyfloat = Fin rat | PInf | NInf | NaN

subsection \<open>Strings\<close>

text \<open>\<open>str.isspace\<close> on ASCII: TAB, LF, VT, FF, CR, FS, GS, RS, US and the space.\<close>

definition is_space :: "char \<Rightarrow> bool" where
  "is_space c = (of_char c \<in> {9, 10, 11, 12, 13, 28, 29, 30, 31, 32 :: nat})"

text \<open>\<open>s.strip()\<close>\<close>

definition py_strip :: "string \<Rightarrow> string" where
  "py_strip s = rev (dropWhile is_space (rev (dropWhile is_space s)))"

text \<open>\<open>s.lower()\<close> on ASCII letters.\<close>

definition lower_char :: "char \<Rightarrow> char" where
  "lower_char c =
     (if CHR ''A'' \<le> c \<and> c \<le> CHR ''Z'' then char_of (of_char c + (32 :: nat)) else c)"

definition py_lower :: "string \<Rightarrow> string" where
  "py_lower s = map lower_char s"

text \<open>\<open>s.replace(a, r)\<close> for a one-character pattern \<open>a\<close>.\<close>

definition py_replace :: "char \<Rightarrow> string \<Rightarrow> string \<Rightarrow> string" where
  "py_replace a r s = concat (map (\<lambda>c. if c = a then r else [c]) s)"

text \<open>\<open>s.split(sep)\<close> for a one-character separator: always at least one part.\<close>

fun py_split :: "char \<Rightarrow> string \<Rightarrow> string list" where
  "py_split sep [] = [[]]"
| "py_split sep (c # cs) =
     (if c = sep then [] # py_split sep cs
      else (case py_split sep cs of
              p # ps \<Rightarrow> (c # p) # ps
            | [] \<Rightarrow> [[c]]))"

subsection \<open>Number syntax\<close>

definition is_digit :: "char \<Rightarrow> bool" where
  "is_digit c = (CHR ''0'' \<le> c \<and> c \<le> CHR ''9'')"

definition digit_val :: "char \<Rightarrow> nat" where
  "digit_val c = of_char c - 48"

definition nat_of_digits :: "string \<Rightarrow> nat" where
  "nat_of_digits ds = foldl (\<lambda>n c. 10 * n + digit_val c) 0 ds"

text \<open>
  Python's \<open>digitpart ::= digit (["_"] digit)*\<close>: the digits, with the
  underscores between them dropped; \<open>None\<close> when the text is not a digitpart.
\<close>

fun digitpart :: "string \<Rightarrow> string option" where
  "digitpart [] = None"
| "digitpart [c] = (if is_digit c then Some [c] else None)"
| "digitpart (c # d # cs) =
     (if \<not> is_digit c then None
      else if d = CHR ''_'' then map_option ((#) c) (digitpart cs)
      else map_option ((#) c) (digitpart (d # cs)))"

text \<open>An optional sign in front of the rest.\<close>

definition split_sign :: "string \<Rightarrow> bool \<times> string" where
  "split_sign s =
     (case s of
        [] \<Rightarrow> (False, [])
      | c # cs \<Rightarrow>
          if c = CHR ''-'' then (True, cs)
          else if c = CHR ''+'' then (False, cs)
          else (False, s))"

text \<open>\<open>int(s)\<close> for a string, base 10: \<open>ValueError\<close> unless the stripped text is a
  signed digitpart. (The limit that newer interpreters put on the number of digits
  is not modelled.)\<close>

definition py_int_str :: "string \<Rightarrow> py_error + int" where
  "py_int_str s =
     (case split_sign (py_strip s) of
        (neg, body) \<Rightarrow>
          (case digitpart body of
             None \<Rightarrow> Inl ValueError
           | Some ds \<Rightarrow> Inr (if neg then - int (nat_of_digits ds) else int (nat_of_digits ds))))"

text \<open>The text before the first character satisfying \<open>P\<close>, and the text after it
  when there is one.\<close>

definition split_first :: "(char \<Rightarrow> bool) \<Rightarrow> string \<Rightarrow> string \<times> string option" where
  "split_first P s =
     (case dropWhile (\<lambda>c. \<not> P c) s of
        [] \<Rightarrow> (s, None)
      | _ # r \<Rightarrow> (takeWhile (\<lambda>c. \<not> P c) s, Some r))"

definition digits_frac :: "string \<Rightarrow> rat" where
  "digits_frac ds = of_nat (nat_of_digits ds) / 10 ^ length ds"

text \<open>\<open>number ::= [digitpart] "." digitpart | digitpart ["."]\<close>\<close>

definition parse_number :: "string \<Rightarrow> rat option" where
  "parse_number s =
     (case split_first (\<lambda>c. c = CHR ''.'') s of
        (ip, None) \<Rightarrow> map_option (\<lambda>ds. of_nat (nat_of_digits ds)) (digitpart ip)
      | (ip, Some fp) \<Rightarrow>
          if fp = [] then map_option (\<lambda>ds. of_nat (nat_of_digits ds)) (digitpart ip)
          else (case digitpart fp of
                  None \<Rightarrow> None
                | Some fd \<Rightarrow>
                    if ip = [] then Some (digits_frac fd)
                    else (case digitpart ip of
                            None \<Rightarrow> None
                          | Some ds \<Rightarrow> Some (of_nat (nat_of_digits ds) + digits_frac fd))))"

text \<open>\<open>exponent ::= ("e" | "E") [sign] digitpart\<close>, after the letter.\<close>

definition parse_exponent :: "string \<Rightarrow> int option" where
  "parse_exponent s =
     (case split_sign s of
        (neg, body) \<Rightarrow>
          map_option (\<lambda>ds. if neg then - int (nat_of_digits ds) else int (nat_of_digits ds))
            (digitpart body))"

definition scale10 :: "rat \<Rightarrow> int \<Rightarrow> rat" where
  "scale10 m e = (if 0 \<le> e then m * 10 ^ nat e else m / 10 ^ nat (- e))"

text \<open>\<open>floatnumber ::= number [exponent]\<close>\<close>

definition parse_floatnumber :: "string \<Rightarrow> rat option" where
  "parse_floatnumber s =
     (case split_first (\<lambda>c. c = CHR ''e'' \<or> c = CHR ''E'') s of
        (m, None) \<Rightarrow> parse_number m
      | (m, Some ex) \<Rightarrow>
          (case parse_number m of
             None \<Rightarrow> None
           | Some q \<Rightarrow> map_option (scale10 q) (parse_exponent ex)))"

text \<open>
  A decimal value becomes a float: at or beyond \<open>2^1024 - 2^970\<close> in magnitude it
  rounds to an infinity; below, the value is kept exactly.
\<close>

definition to_float :: "rat \<Rightarrow> pyfloat" where
  "to_float q =
     (if 2 ^ 1024 - 2 ^ 970 \<le> q then PInf
      else if q \<le> - (2 ^ 1024 - 2 ^ 970) then NInf
      else Fin q)"

text \<open>\<open>float(s)\<close> for a string: white space stripped, an optional sign, then
  \<open>inf\<close>, \<open>infinity\<close> or \<open>nan\<close> in any case, or a floatnumber;
  \<open>ValueError\<close> otherwise.\<close>

definition py_float_str :: "string \<Rightarrow> py_error + pyfloat" where
  "py_float_str s =
     (case split_sign (py_strip s) of
        (neg, body) \<Rightarrow>
          if py_lower body = ''inf'' \<or> py_lower body = ''infinity''
          then Inr (if neg then NInf else PInf)
          else if py_lower body = ''nan'' then Inr NaN
          else (case parse_floatnumber body of
                  None \<Rightarrow> Inl ValueError
                | Some q \<Rightarrow> Inr (to_float (if neg then - q else q))))"

subsection \<open>Float operations\<close>

text \<open>\<open>a <= b\<close> and \<open>a < b\<close> on floats: every comparison with NaN is false.\<close>

fun float_le :: "pyfloat \<Rightarrow> pyfloat \<Rightarrow> bool" where
  "float_le NaN _ = False"
| "float_le _ NaN = False"
| "float_le NInf _ = True"
| "float_le _ PInf = True"
| "float_le (Fin a) (Fin b) = (a \<le> b)"
| "float_le _ _ = False"

fun float_lt :: "pyfloat \<Rightarrow> pyfloat \<Rightarrow> bool" where
  "float_lt NaN _ = False"
| "float_lt _ NaN = False"
| "float_lt PInf _ = False"
| "float_lt _ NInf = False"
| "float_lt (Fin a) (Fin b) = (a < b)"
| "float_lt _ _ = True"

text \<open>Rounding to the nearest integer, ties to the even one (Python 3's \<open>round\<close>).\<close>

definition round_half_even :: "rat \<Rightarrow> int" where
  "round_half_even x =
     (let f = \<lfloor>x\<rfloor>; d = x - of_int f
      in if d < 1 / 2 then f
         else if 1 / 2 < d then f + 1
         else if even f then f else f + 1)"

text \<open>\<open>round(x, 5)\<close> on a float: a float again; an infinity or NaN is returned as it is.\<close>

fun py_round5 :: "pyfloat \<Rightarrow> pyfloat" where
  "py_round5 (Fin q) = Fin (of_int (round_half_even (q * 100000)) / 100000)"
| "py_round5 x = x"

text \<open>\<open>int(x)\<close> on a float truncates towards zero; an infinity raises
  \<open>OverflowError\<close>, NaN raises \<open>ValueError\<close>.\<close>

fun py_int_float :: "pyfloat \<Rightarrow> py_error + int" where
  "py_int_float (Fin q) = Inr (if 0 \<le> q then \<lfloor>q\<rfloor> else \<lceil>q\<rceil>)"
| "py_int_float NaN = Inl ValueError"
| "py_int_float _ = Inl OverflowError"

text \<open>\<open>round(x)\<close> on a float gives an \<open>int\<close>; an infinity raises
  \<open>OverflowError\<close>, NaN raises \<open>ValueError\<close>.\<close>

fun py_round :: "pyfloat \<Rightarrow> py_error + int" where
  "py_round (Fin q) = Inr (round_half_even q)"
| "py_round NaN = Inl ValueError"
| "py_round _ = Inl OverflowError"

text \<open>\<open>a / b\<close> on two \<open>int\<close>s: a float; \<open>ZeroDivisionError\<close> when \<open>b\<close> is 0,
  \<open>OverflowError\<close> when the quotient is too large for a float.\<close>

definition py_truediv :: "int \<Rightarrow> int \<Rightarrow> py_error + pyfloat" where
  "py_truediv a b =
     (if b = 0 then Inl ZeroDivisionError
      else (case to_float (of_int a / of_int b) of
              Fin q \<Rightarrow> Inr (Fin q)
            | _ \<Rightarrow> Inl OverflowError))"

subsection \<open>Sequencing, \<open>min\<close>, \<open>max\<close> and dictionaries\<close>

text \<open>An exception ends the computation; a value is passed on.\<close>

definition bind :: "py_error + 'a \<Rightarrow> ('a \<Rightarrow> py_error + 'b) \<Rightarrow> py_error + 'b" where
  "bind r f = (case r of Inl e \<Rightarrow> Inl e | Inr v \<Rightarrow> f v)"

text \<open>A list comprehension whose element expression may raise.\<close>

fun map_err :: "('a \<Rightarrow> py_error + 'b) \<Rightarrow> 'a list \<Rightarrow> py_error + 'b list" where
  "map_err f [] = Inr []"
| "map_err f (x # xs) = bind (f x) (\<lambda>y. bind (map_err f xs) (\<lambda>ys. Inr (y # ys)))"

text \<open>\<open>min(xs)\<close> and \<open>max(xs)\<close> keep the first extremal element, comparing with
  \<open><\<close> (given as \<open>lt\<close>); on an empty list they raise \<open>ValueError\<close>.\<close>

definition py_min :: "('a \<Rightarrow> 'a \<Rightarrow> bool) \<Rightarrow> 'a list \<Rightarrow> py_error + 'a" where
  "py_min lt xs =
     (case xs of
        [] \<Rightarrow> Inl ValueError
      | x # rest \<Rightarrow> Inr (foldl (\<lambda>m y. if lt y m then y else m) x rest))"

definition py_max :: "('a \<Rightarrow> 'a \<Rightarrow> bool) \<Rightarrow> 'a list \<Rightarrow> py_error + 'a" where
  "py_max lt xs =
     (case xs of
        [] \<Rightarrow> Inl ValueError
      | x # rest \<Rightarrow> Inr (foldl (\<lambda>m y. if lt m y then y else m) x rest))"

text \<open>A \<open>dict\<close> keeps its keys in insertion order: an association list with distinct
  keys. \<open>d[k] = v\<close> replaces the value of a key in place, or adds the key at the end.\<close>

fun dict_set :: "'k \<Rightarrow> 'v \<Rightarrow> ('k \<times> 'v) list \<Rightarrow> ('k \<times> 'v) list" where
  "dict_set k v [] = [(k, v)]"
| "dict_set k v ((k', v') # rest) =
     (if k' = k then (k, v) # rest else (k', v') # dict_set k v rest)"

text \<open>\<open>d[k].append(v)\<close> on a \<open>defaultdict(list)\<close>: a missing key starts from the
  empty list.\<close>

definition dict_append :: "'k \<Rightarrow> 'v \<Rightarrow> ('k \<times> 'v list) list \<Rightarrow> ('k \<times> 'v list) list" where
  "dict_append k v d =
     dict_set k ((case map_of d k of None \<Rightarrow> [] | Some vs \<Rightarrow> vs) @ [v]) d"

section \<open>The parsing helpers\<close>

text \<open>The clause \<open>except (ValueError, TypeError): return None\<close>.\<close>

definition except_value_type :: "py_error + 'a option \<Rightarrow> py_error + 'a option" where
  "except_value_type r =
     (case r of
        Inl e \<Rightarrow> if e = ValueError \<or> e = TypeError then Inr None else Inl e
      | Inr v \<Rightarrow> Inr v)"

text \<open>
  \<open>parse_float(val)\<close>: \<open>float(val) if val and val.strip() else None\<close> inside the
  \<open>try\<close>. The argument is a cell of the row: a string, or Python's \<open>None\<close>.
\<close>

definition parse_float :: "string option \<Rightarrow> py_error + pyfloat option" where
  "parse_float val =
     except_value_type
       (case val of
          None \<Rightarrow> Inr None
        | Some s \<Rightarrow>
            if s \<noteq> [] \<and> py_strip s \<noteq> [] then bind (py_float_str s) (\<lambda>x. Inr (Some x))
            else Inr None)"

text \<open>\<open>parse_int(val)\<close>: \<open>int(float(val)) if val and val.strip() else None\<close> inside
  the \<open>try\<close>.\<close>

definition parse_int :: "string option \<Rightarrow> py_error + int option" where
  "parse_int val =
     except_value_type
       (case val of
          None \<Rightarrow> Inr None
        | Some s \<Rightarrow>
            if s \<noteq> [] \<and> py_strip s \<noteq> []
            then bind (py_float_str s) (\<lambda>x. bind (py_int_float x) (\<lambda>n. Inr (Some n)))
            else Inr None)"

section \<open>The body of \<open>process_wells\<close>\<close>

subsection \<open>Rows and well records\<close>

text \<open>
  A row of \<open>csv.DictReader\<close> maps the header's field names to cells. A cell is a
  string, or \<open>None\<close> when the line has fewer fields than the header (the reader's
  \<open>restval\<close>). A field name outside the header is not a key of the row.
\<close>

type_synonym row = "string \<rightharpoonup> string option"

text \<open>\<open>row.get(k)\<close> and \<open>row.get(k, d)\<close>: the default stands in for a missing key
  only, never for a \<open>None\<close> cell.\<close>

definition row_get :: "row \<Rightarrow> string \<Rightarrow> string option" where
  "row_get row k = (case row k of None \<Rightarrow> None | Some cell \<Rightarrow> cell)"

definition row_get_default :: "row \<Rightarrow> string \<Rightarrow> string \<Rightarrow> string option" where
  "row_get_default row k d = (case row k of None \<Rightarrow> Some d | Some cell \<Rightarrow> cell)"

text \<open>
  The compact well record is a \<open>dict\<close> with the keys \<open>lat\<close>, \<open>lon\<close>, \<open>depth\<close>,
  \<open>static\<close>, \<open>yield\<close> and \<open>year\<close>, from which line 119 removes every key whose
  value is \<open>None\<close>. Here it is a record whose optional fields are \<open>None\<close> exactly
  when the key has been removed; \<open>w.get('depth')\<close> is \<open>depth w\<close>.
\<close>

record well =
  lat :: pyfloat
  lon :: pyfloat
  depth :: "int option"
  static :: "int option"
  yield :: "pyfloat option"
  year :: "int option"

text \<open>The keys and values of the record as serialized: the \<open>dict\<close> of lines 94 to
  101 after the comprehension of line 119.\<close>

datatype pyval = VInt int | VFloat pyfloat

definition well_items :: "well \<Rightarrow> (string \<times> pyval) list" where
  "well_items w =
     List.map_filter (\<lambda>(k, v). map_option (Pair k) v)
       [(''lat'', Some (VFloat (lat w))),
        (''lon'', Some (VFloat (lon w))),
        (''depth'', map_option VInt (depth w)),
        (''static'', map_option VInt (static w)),
        (''yield'', map_option VFloat (yield w)),
        (''year'', map_option VInt (year w))]"

subsection \<open>One row: lines 59 to 119\<close>

text \<open>The truth value of an optional \<open>int\<close>: \<open>None\<close> and 0 are false.\<close>

definition truthy :: "int option \<Rightarrow> bool" where
  "truthy v = (case v of None \<Rightarrow> False | Some n \<Rightarrow> n \<noteq> 0)"

text \<open>\<open>a or b\<close>\<close>

definition py_or :: "int option \<Rightarrow> int option \<Rightarrow> int option" where
  "py_or a b = (if truthy a then a else b)"

text \<open>Line 68, the test that skips the row:
  \<open>not (32 <= lat <= 42) or not (-125 <= lon <= -114)\<close>.\<close>

definition outside_envelope :: "pyfloat \<Rightarrow> pyfloat \<Rightarrow> bool" where
  "outside_envelope la lo =
     (\<not> (float_le (Fin 32) la \<and> float_le la (Fin 42))
      \<or> \<not> (float_le (Fin (- 125)) lo \<and> float_le lo (Fin (- 114))))"

text \<open>Lines 82 to 84: \<open>row.get('COUNTYNAME', 'Unknown').strip()\<close>, and \<open>'Unknown'\<close>
  when the result is empty. On a \<open>None\<close> cell \<open>.strip()\<close> raises
  \<open>AttributeError\<close>.\<close>

definition get_county :: "row \<Rightarrow> py_error + string" where
  "get_county row =
     (case row_get_default row ''COUNTYNAME'' ''Unknown'' of
        None \<Rightarrow> Inl AttributeError
      | Some s \<Rightarrow>
          (let county = py_strip s
           in Inr (if county = [] then ''Unknown'' else county)))"

text \<open>\<open>xs[i]\<close>\<close>

definition py_index :: "'a list \<Rightarrow> nat \<Rightarrow> py_error + 'a" where
  "py_index xs i = (if i < length xs then Inr (xs ! i) else Inl IndexError)"

text \<open>Lines 107 to 114, the body of the \<open>try\<close>: the year the date gives, \<open>None\<close>
  when no assignment to \<open>well['year']\<close> is reached.\<close>

definition year_of_date :: "string \<Rightarrow> py_error + int option" where
  "year_of_date date_str =
     (if CHR ''/'' \<in> set date_str then
        (let parts = py_split CHR ''/'' date_str
         in if length parts = 3
            then bind (py_index parts 2) (\<lambda>p. bind (py_int_str p) (\<lambda>y. Inr (Some y)))
            else Inr None)
      else if CHR ''-'' \<in> set date_str then
        bind (py_int_str (take 4 date_str)) (\<lambda>y. Inr (Some y))
      else Inr None)"

text \<open>Lines 104 to 116: the guard, the \<open>try\<close> and
  \<open>except (ValueError, IndexError): pass\<close>.\<close>

definition extract_year :: "row \<Rightarrow> py_error + int option" where
  "extract_year row =
     (case row_get_default row ''DATEWORKENDED'' [] of
        None \<Rightarrow> Inr None
      | Some date_str \<Rightarrow>
          if date_str \<noteq> [] \<and> 4 \<le> length date_str then
            (case year_of_date date_str of
               Inl e \<Rightarrow> if e = ValueError \<or> e = IndexError then Inr None else Inl e
             | Inr y \<Rightarrow> Inr y)
          else Inr None)"

text \<open>
  What the loop body computes from the row alone. \<open>Inr None\<close> is a \<open>continue\<close>
  of line 65 or 69; \<open>Inr (Some (county, well))\<close> is the county of line 84 and the
  record appended at line 121; \<open>Inl e\<close> is an exception that leaves the loop and
  the script. The calls are in the order of the source.
\<close>

definition normalize_row :: "row \<Rightarrow> py_error + (string \<times> well) option" where
  "normalize_row row =
     bind (parse_float (row_get row ''DECIMALLATITUDE'')) (\<lambda>lat_opt.
     bind (parse_float (row_get row ''DECIMALLONGITUDE'')) (\<lambda>lon_opt.
       case lat_opt of
         None \<Rightarrow> Inr None
       | Some la \<Rightarrow>
           (case lon_opt of
              None \<Rightarrow> Inr None
            | Some lo \<Rightarrow>
                if outside_envelope la lo then Inr None
                else
                  bind (parse_int (row_get row ''TOTALDRILLDEPTH'')) (\<lambda>total_depth.
                  bind (parse_int (row_get row ''TOTALCOMPLETEDDEPTH'')) (\<lambda>completed_depth.
                  bind (get_county row) (\<lambda>county.
                  bind (parse_int (row_get row ''STATICWATERLEVEL'')) (\<lambda>static_level.
                  bind (parse_float (row_get row ''WELLYIELD'')) (\<lambda>well_yield.
                  bind (extract_year row) (\<lambda>y.
                    Inr (Some (county,
                      \<lparr>lat = py_round5 la,
                       lon = py_round5 lo,
                       depth = py_or completed_depth total_depth,
                       static = static_level,
                       yield = well_yield,
                       year = y\<rparr>)))))))))))"

subsection \<open>The scan: lines 38 to 121\<close>

text \<open>An entry of \<open>stats['counties']\<close>.\<close>

record county_entry =
  entry_count :: nat
  entry_depths :: "int list"

text \<open>The counters of \<open>stats\<close> and the buckets \<open>wells_by_county\<close>.\<close>

record state =
  total_records :: nat
  records_with_coords :: nat
  records_with_depth :: nat
  counties :: "(string \<times> county_entry) list"
  wells_by_county :: "(string \<times> well list) list"

definition init_state :: state where
  "init_state =
     \<lparr>total_records = 0, records_with_coords = 0, records_with_depth = 0,
      counties = [], wells_by_county = []\<rparr>"

text \<open>Lines 87 to 91: the count of the county goes up by one, and the depth joins
  the county's depth list when it is true (\<open>if depth:\<close>).\<close>

definition track_county ::
  "string \<Rightarrow> int option \<Rightarrow> (string \<times> county_entry) list \<Rightarrow> (string \<times> county_entry) list" where
  "track_county county d cs =
     (let e = (case map_of cs county of
                 None \<Rightarrow> \<lparr>entry_count = 0, entry_depths = []\<rparr>
               | Some e \<Rightarrow> e)
      in dict_set county
           \<lparr>entry_count = entry_count e + 1,
            entry_depths =
              (case d of
                 None \<Rightarrow> entry_depths e
               | Some n \<Rightarrow> if n \<noteq> 0 then entry_depths e @ [n] else entry_depths e)\<rparr>
           cs)"

text \<open>
  One turn of the loop. The counters change at lines 54, 71 and 79 and the
  dictionaries at lines 87 to 91 and 121; an exception discards the state with the
  run, so the updates are gathered after \<open>normalize_row\<close>.
\<close>

definition process_row :: "state \<Rightarrow> row \<Rightarrow> py_error + state" where
  "process_row st row =
     (let st1 = st\<lparr>total_records := total_records st + 1\<rparr>
      in bind (normalize_row row) (\<lambda>r.
           case r of
             None \<Rightarrow> Inr st1
           | Some (county, w) \<Rightarrow>
               Inr (st1\<lparr>records_with_coords := records_with_coords st1 + 1,
                        records_with_depth :=
                          (if depth w \<noteq> None then records_with_depth st1 + 1
                           else records_with_depth st1),
                        counties := track_county county (depth w) (counties st1),
                        wells_by_county := dict_append county w (wells_by_county st1)\<rparr>)))"

text \<open>The \<open>for\<close> loop over the reader's rows.\<close>

fun scan_rows :: "state \<Rightarrow> row list \<Rightarrow> py_error + state" where
  "scan_rows st [] = Inr st"
| "scan_rows st (row # rows) = bind (process_row st row) (\<lambda>st'. scan_rows st' rows)"

subsection \<open>The documents: lines 128 to 186\<close>

text \<open>An element of \<open>counties.json\<close>.\<close>

record summary =
  name :: string
  count :: nat
  avgDepth :: "int option"
  minDepth :: "int option"
  maxDepth :: "int option"

text \<open>An element of \<open>index.json\<close>.\<close>

record bounds =
  minLat :: pyfloat
  maxLat :: pyfloat
  minLon :: pyfloat
  maxLon :: pyfloat

record index_entry =
  idx_name :: string
  idx_file :: string
  idx_count :: nat
  idx_bounds :: bounds

text \<open>Line 131: \<open>[w.get('depth') for w in wells if w.get('depth')]\<close>\<close>

definition true_depths :: "well list \<Rightarrow> int list" where
  "true_depths wells =
     List.map_filter
       (\<lambda>w. case depth w of None \<Rightarrow> None | Some n \<Rightarrow> if n \<noteq> 0 then Some n else None) wells"

text \<open>Lines 131 to 142, for one item of \<open>sorted(wells_by_county.items())\<close>.\<close>

definition county_summary :: "string \<times> well list \<Rightarrow> py_error + summary" where
  "county_summary item =
     (case item of
        (county, wells) \<Rightarrow>
          (let depths = true_depths wells
           in bind (if depths \<noteq> []
                    then bind (py_truediv (sum_list depths) (int (length depths)))
                           (\<lambda>q. bind (py_round q) (\<lambda>a. Inr (Some a)))
                    else Inr None) (\<lambda>avg_depth.
              bind (if depths \<noteq> [] then bind (py_min (<) depths) (\<lambda>m. Inr (Some m))
                    else Inr None) (\<lambda>min_depth.
              bind (if depths \<noteq> [] then bind (py_max (<) depths) (\<lambda>m. Inr (Some m))
                    else Inr None) (\<lambda>max_depth.
                Inr \<lparr>name = county, count = length wells, avgDepth = avg_depth,
                     minDepth = min_depth, maxDepth = max_depth\<rparr>)))))"

text \<open>Lines 154 and 155 (and 169 and 173): the file name of a county.\<close>

definition safe_name :: "string \<Rightarrow> string" where
  "safe_name county = py_replace CHR ''.'' [] (py_replace CHR '' '' ''-'' (py_lower county))"

definition filename :: "string \<Rightarrow> string" where
  "filename county = safe_name county @ ''.json''"

text \<open>Lines 166 to 181, for one item.\<close>

definition index_entry_of :: "string \<times> well list \<Rightarrow> py_error + index_entry" where
  "index_entry_of item =
     (case item of
        (county, wells) \<Rightarrow>
          (let lats = map lat wells; lons = map lon wells
           in bind (py_min float_lt lats) (\<lambda>min_lat.
              bind (py_max float_lt lats) (\<lambda>max_lat.
              bind (py_min float_lt lons) (\<lambda>min_lon.
              bind (py_max float_lt lons) (\<lambda>max_lon.
                Inr \<lparr>idx_name = county, idx_file = filename county,
                     idx_count = length wells,
                     idx_bounds = \<lparr>minLat = min_lat, maxLat = max_lat,
                                   minLon = min_lon, maxLon = max_lon\<rparr>\<rparr>))))))"

text \<open>
  What a run leaves: the counters it prints, the list written to
  \<open>counties.json\<close>, the county files in the order they are written (file name and
  content, one write per county) and the list written to \<open>index.json\<close>.
\<close>

record artifacts =
  final :: state
  counties_json :: "summary list"
  county_files :: "(string \<times> well list) list"
  index_json :: "index_entry list"

text \<open>\<open>sorted(wells_by_county.items())\<close>: the keys are distinct, so the items are
  ordered by county name.\<close>

definition sorted_items :: "(string \<times> well list) list \<Rightarrow> (string \<times> well list) list" where
  "sorted_items d = sort_key fst d"

definition process_wells :: "row list \<Rightarrow> py_error + artifacts" where
  "process_wells rows =
     bind (scan_rows init_state rows) (\<lambda>st.
     bind (map_err county_summary (sorted_items (wells_by_county st))) (\<lambda>county_stats.
     bind (map_err index_entry_of (sorted_items (wells_by_county st))) (\<lambda>index.
       Inr \<lparr>final = st,
            counties_json = county_stats,
            county_files =
              map (\<lambda>(county, wells). (filename county, wells))
                (sorted_items (wells_by_county st)),
            index_json = index\<rparr>)))"

section \<open>The file names as the specification words them\<close>

text \<open>
  The specification derives the name of a county file from the region name:
  lowercase, spaces replaced with hyphens, periods removed, suffixed \<open>.json\<close>.
  This definition follows those words, character by character; it is compared
  with \<open>filename\<close> below.
\<close>

definition spec_filename :: "string \<Rightarrow> string" where
  "spec_filename region =
     filter (\<lambda>c. c \<noteq> CHR ''.'')
       (map (\<lambda>c. if c = CHR '' '' then CHR ''-'' else c) (py_lower region)) @ ''.json''"

section \<open>Example rows\<close>

text \<open>A complete row of Kern county whose completed depth is 0.\<close>

definition row_kern :: row where
  "row_kern =
     [''DECIMALLATITUDE'' \<mapsto> Some ''35.5'',
      ''DECIMALLONGITUDE'' \<mapsto> Some ''-120.25'',
      ''TOTALDRILLDEPTH'' \<mapsto> Some ''150'',
      ''TOTALCOMPLETEDDEPTH'' \<mapsto> Some ''0'',
      ''COUNTYNAME'' \<mapsto> Some '' Kern '',
      ''DATEWORKENDED'' \<mapsto> Some ''03/15/2010'']"

text \<open>A row with an empty county name and a drill depth of 0.\<close>

definition row_blank :: row where
  "row_blank =
     [''DECIMALLATITUDE'' \<mapsto> Some ''36'',
      ''DECIMALLONGITUDE'' \<mapsto> Some ''-121'',
      ''TOTALDRILLDEPTH'' \<mapsto> Some ''0'',
      ''COUNTYNAME'' \<mapsto> Some [],
      ''DATEWORKENDED'' \<mapsto> Some ''2010-03-15'']"

text \<open>A row of a file without a county column.\<close>

definition row_nocounty :: row where
  "row_nocounty =
     [''DECIMALLATITUDE'' \<mapsto> Some ''36.25'',
      ''DECIMALLONGITUDE'' \<mapsto> Some ''-119'',
      ''TOTALDRILLDEPTH'' \<mapsto> Some ''100'',
      ''DATEWORKENDED'' \<mapsto> Some ''not-a-date'']"

text \<open>A row north of the envelope, otherwise complete.\<close>

definition row_north :: row where
  "row_north =
     [''DECIMALLATITUDE'' \<mapsto> Some ''50'',
      ''DECIMALLONGITUDE'' \<mapsto> Some ''-121'',
      ''TOTALDRILLDEPTH'' \<mapsto> Some ''150'',
      ''COUNTYNAME'' \<mapsto> Some ''Kern'']"

text \<open>A row with valid coordinates whose drill depth reads \<open>inf\<close>.\<close>

definition row_inf :: row where
  "row_inf =
     [''DECIMALLATITUDE'' \<mapsto> Some ''35'',
      ''DECIMALLONGITUDE'' \<mapsto> Some ''-120'',
      ''TOTALDRILLDEPTH'' \<mapsto> Some ''inf'',
      ''COUNTYNAME'' \<mapsto> Some ''Kern'']"

text \<open>A line that ends after the coordinates: the county cell is \<open>None\<close>.\<close>

definition row_short :: row where
  "row_short =
     [''DECIMALLATITUDE'' \<mapsto> Some ''35'',
      ''DECIMALLONGITUDE'' \<mapsto> Some ''-120'',
      ''COUNTYNAME'' \<mapsto> None]"

definition example_rows :: "row list" where
  "example_rows = [row_kern, row_blank, row_nocounty]"

definition well_kern :: well where
  "well_kern =
     \<lparr>lat = Fin (71 / 2), lon = Fin (- 481 / 4), depth = Some 150, static = None,
      yield = None, year = Some 2010\<rparr>"

definition well_blank :: well where
  "well_blank =
     \<lparr>lat = Fin 36, lon = Fin (- 121), depth = Some 0, static = None,
      yield = None, year = Some 2010\<rparr>"

definition well_nocounty :: well where
  "well_nocounty =
     \<lparr>lat = Fin (145 / 4), lon = Fin (- 119), depth = Some 100, static = None,
      yield = None, year = None\<rparr>"

text \<open>What the script leaves on \<open>example_rows\<close>.\<close>

definition example_result :: artifacts where
  "example_result =
     \<lparr>final =
        \<lparr>total_records = 3, records_with_coords = 3, records_with_depth = 3,
         counties =
           [(''Kern'', \<lparr>entry_count = 1, entry_depths = [150]\<rparr>),
            (''Unknown'', \<lparr>entry_count = 2, entry_depths = [100]\<rparr>)],
         wells_by_county =
           [(''Kern'', [well_kern]), (''Unknown'', [well_blank, well_nocounty])]\<rparr>,
      counties_json =
        [\<lparr>name = ''Kern'', count = 1, avgDepth = Some 150, minDepth = Some 150,
          maxDepth = Some 150\<rparr>,
         \<lparr>name = ''Unknown'', count = 2, avgDepth = Some 100, minDepth = Some 100,
          maxDepth = Some 100\<rparr>],
      county_files =
        [(''kern.json'', [well_kern]), (''unknown.json'', [well_blank, well_nocounty])],
      index_json =
        [\<lparr>idx_name = ''Kern'', idx_file = ''kern.json'', idx_count = 1,
          idx_bounds = \<lparr>minLat = Fin (71 / 2), maxLat = Fin (71 / 2),
                        minLon = Fin (- 481 / 4), maxLon = Fin (- 481 / 4)\<rparr>\<rparr>,
         \<lparr>idx_name = ''Unknown'', idx_file = ''unknown.json'', idx_count = 2,
          idx_bounds = \<lparr>minLat = Fin 36, maxLat = Fin (145 / 4),
                        minLon = Fin (- 121), maxLon = Fin (- 119)\<rparr>\<rparr>]\<rparr>"

section \<open>Basic facts\<close>

lemma bind_Inl [simp]: "bind (Inl e) f = Inl e"
  by (simp add: bind_def)

lemma bind_Inr [simp]: "bind (Inr v) f = f v"
  by (simp add: bind_def)

lemma bind_eq_Inr: "bind r f = Inr y \<longleftrightarrow> (\<exists>v. r = Inr v \<and> f v = Inr y)"
  by (cases r) simp_all

text \<open>\<open>float\<close> and \<open>int\<close> on a string raise nothing but \<open>ValueError\<close>.\<close>

lemma py_float_str_error: "py_float_str s = Inl e \<Longrightarrow> e = ValueError"
  by (auto simp: py_float_str_def split: prod.splits if_splits option.splits)

lemma py_int_str_error: "py_int_str s = Inl e \<Longrightarrow> e = ValueError"
  by (auto simp: py_int_str_def split: prod.splits option.splits)

text \<open>\<open>parse_float\<close> returns for every cell.\<close>

lemma parse_float_total: "\<exists>v. parse_float val = Inr v"
proof (cases val)
  case None
  then show ?thesis by (simp add: parse_float_def except_value_type_def)
next
  case (Some s)
  show ?thesis
  proof (cases "py_float_str s")
    case (Inl e)
    then have "e = ValueError" by (rule py_float_str_error)
    with Inl Some show ?thesis by (simp add: parse_float_def except_value_type_def)
  next
    case (Inr x)
    with Some show ?thesis by (simp add: parse_float_def except_value_type_def)
  qed
qed

text \<open>\<open>parse_float\<close> gives no value exactly for a \<open>None\<close> cell, a blank
  string, or a string that \<open>float\<close> refuses.\<close>

lemma parse_float_None_iff:
  "parse_float val = Inr None \<longleftrightarrow>
     (val = None \<or> (\<exists>s. val = Some s \<and> (py_strip s = [] \<or> py_float_str s = Inl ValueError)))"
proof (cases val)
  case None
  then show ?thesis by (simp add: parse_float_def except_value_type_def)
next
  case (Some s)
  have empty: "py_strip [] = []" by (simp add: py_strip_def)
  show ?thesis
  proof (cases "py_float_str s")
    case (Inl e)
    then have "e = ValueError" by (rule py_float_str_error)
    with Inl Some show ?thesis by (simp add: parse_float_def except_value_type_def)
  next
    case (Inr x)
    with Some empty show ?thesis
      by (auto simp: parse_float_def except_value_type_def)
  qed
qed

text \<open>What an accepted row went through.\<close>

lemma normalize_row_accept:
  assumes "normalize_row row = Inr (Some (county, w))"
  shows "\<exists>la lo total completed.
           parse_float (row_get row ''DECIMALLATITUDE'') = Inr (Some la)
         \<and> parse_float (row_get row ''DECIMALLONGITUDE'') = Inr (Some lo)
         \<and> \<not> outside_envelope la lo
         \<and> parse_int (row_get row ''TOTALDRILLDEPTH'') = Inr total
         \<and> parse_int (row_get row ''TOTALCOMPLETEDDEPTH'') = Inr completed
         \<and> get_county row = Inr county
         \<and> lat w = py_round5 la \<and> lon w = py_round5 lo
         \<and> depth w = py_or completed total"
  using assms unfolding normalize_row_def bind_def
  by (auto split: sum.splits option.splits if_splits)


text \<open>The year extraction: it returns for every row, and what it returns.\<close>

lemma extract_year_total: "\<exists>y. extract_year row = Inr y"
proof -
  have "\<exists>y. (case year_of_date s of
               Inl e \<Rightarrow> if e = ValueError \<or> e = IndexError then Inr None else Inl e
             | Inr y \<Rightarrow> Inr y) = Inr y" for s
    by (auto simp: year_of_date_def py_index_def bind_def Let_def
        dest: py_int_str_error split: sum.splits if_splits)
  then show ?thesis
    by (auto simp: extract_year_def split: option.splits)
qed

lemma extract_year_cell:
  assumes "row ''DATEWORKENDED'' = Some (Some s)" "4 \<le> length s"
  shows "extract_year row =
           (if CHR ''/'' \<in> set s then
              (if length (py_split CHR ''/'' s) = 3
               then Inr (case py_int_str (py_split CHR ''/'' s ! 2) of
                           Inl e \<Rightarrow> None | Inr y \<Rightarrow> Some y)
               else Inr None)
            else if CHR ''-'' \<in> set s then
              Inr (case py_int_str (take 4 s) of Inl e \<Rightarrow> None | Inr y \<Rightarrow> Some y)
            else Inr None)"
proof -
  from assms have ne: "s \<noteq> []" by auto
  show ?thesis
    using assms ne
    by (auto simp: extract_year_def row_get_default_def year_of_date_def py_index_def
        bind_def Let_def dest: py_int_str_error split: sum.splits)
qed

lemma extract_year_short:
  assumes "row ''DATEWORKENDED'' = Some (Some s)" "length s < 4"
  shows "extract_year row = Inr None"
  using assms by (simp add: extract_year_def row_get_default_def)

lemma extract_year_no_cell:
  assumes "row ''DATEWORKENDED'' = None \<or> row ''DATEWORKENDED'' = Some None"
  shows "extract_year row = Inr None"
  using assms by (auto simp: extract_year_def row_get_default_def)

text \<open>The county of a row, and the file names.\<close>

lemma py_strip_Unknown: "py_strip ''Unknown'' = ''Unknown''"
  by (simp add: py_strip_def is_space_def)

lemma get_county_cases:
  "get_county row =
     (case row ''COUNTYNAME'' of
        None \<Rightarrow> Inr ''Unknown''
      | Some None \<Rightarrow> Inl AttributeError
      | Some (Some s) \<Rightarrow> Inr (if py_strip s = [] then ''Unknown'' else py_strip s))"
  by (simp add: get_county_def row_get_default_def py_strip_Unknown Let_def
      split: option.splits)

lemma filename_Unknown: "filename ''Unknown'' = ''unknown.json''"
  by (simp add: filename_def safe_name_def py_replace_def py_lower_def lower_char_def char_of_def bit_0)

lemma filename_spec: "filename county = spec_filename county"
proof -
  have "py_replace CHR ''.'' [] (py_replace CHR '' '' ''-'' xs) =
        filter (\<lambda>c. c \<noteq> CHR ''.'') (map (\<lambda>c. if c = CHR '' '' then CHR ''-'' else c) xs)"
    for xs
    by (induction xs) (simp_all add: py_replace_def)
  then show ?thesis
    by (simp add: filename_def safe_name_def spec_filename_def)
qed

text \<open>The exceptions that leave the loop body: \<open>OverflowError\<close> from
  \<open>parse_int\<close> and \<open>AttributeError\<close> from the county.\<close>

lemma parse_int_error: "parse_int val = Inl e \<Longrightarrow> e = OverflowError"
proof (cases val)
  case None
  assume "parse_int val = Inl e"
  with None show ?thesis by (simp add: parse_int_def except_value_type_def)
next
  case (Some s)
  assume err: "parse_int val = Inl e"
  show ?thesis
  proof (cases "py_float_str s")
    case (Inl e')
    then have "e' = ValueError" by (rule py_float_str_error)
    with Inl Some err show ?thesis
      by (simp add: parse_int_def except_value_type_def split: if_splits)
  next
    case (Inr x)
    with Some err show ?thesis
      by (cases x) (simp_all add: parse_int_def except_value_type_def split: if_splits)
  qed
qed

lemma normalize_row_error:
  assumes "normalize_row row = Inl e"
  shows "e = OverflowError \<or> e = AttributeError"
proof -
  obtain a where a: "parse_float (row_get row ''DECIMALLATITUDE'') = Inr a"
    using parse_float_total by blast
  obtain b where b: "parse_float (row_get row ''DECIMALLONGITUDE'') = Inr b"
    using parse_float_total by blast
  obtain y where y: "parse_float (row_get row ''WELLYIELD'') = Inr y"
    using parse_float_total by blast
  obtain yr where yr: "extract_year row = Inr yr"
    using extract_year_total by blast
  have c: "get_county row = Inl e' \<Longrightarrow> e' = AttributeError" for e'
    by (auto simp: get_county_cases split: option.splits)
  from assms show ?thesis
    unfolding normalize_row_def a b y yr
    by (auto simp: bind_def split: option.splits sum.splits if_splits
        dest: parse_int_error c)
qed

section \<open>The scan and the documents: general facts\<close>

text \<open>Appending to a bucket: what it adds and what it keeps.\<close>

lemma dict_append_Nil: "dict_append k v [] = [(k, [v])]"
  by (simp add: dict_append_def)

lemma dict_append_Cons:
  "dict_append k v ((k', vs) # rest) =
     (if k' = k then (k', vs @ [v]) # rest else (k', vs) # dict_append k v rest)"
  by (simp add: dict_append_def)





text \<open>One turn of the loop by the outcome of \<open>normalize_row\<close>, and the scan as a
  whole: an invariant of the turns holds at the end of a scan that returns.\<close>

lemma process_row_cases:
  "process_row st row =
     (case normalize_row row of
        Inl e \<Rightarrow> Inl e
      | Inr None \<Rightarrow> Inr (st\<lparr>total_records := total_records st + 1\<rparr>)
      | Inr (Some (county, w)) \<Rightarrow>
          Inr (st\<lparr>total_records := total_records st + 1,
                  records_with_coords := records_with_coords st + 1,
                  records_with_depth :=
                    (if depth w \<noteq> None then records_with_depth st + 1
                     else records_with_depth st),
                  counties := track_county county (depth w) (counties st),
                  wells_by_county := dict_append county w (wells_by_county st)\<rparr>))"
  by (simp add: process_row_def Let_def split: sum.splits option.splits)



text \<open>The documents are computed item by item from the sorted buckets.\<close>

lemma map_err_Inr:
  "map_err f xs = Inr ys \<Longrightarrow> list_all2 (\<lambda>x y. f x = Inr y) xs ys"
proof (induction xs arbitrary: ys)
  case Nil
  then show ?case by simp
next
  case (Cons x xs)
  from Cons.prems obtain y ys' where "f x = Inr y" "map_err f xs = Inr ys'" "ys = y # ys'"
    by (auto simp: bind_eq_Inr)
  with Cons.IH show ?case by simp
qed



lemma process_wells_Inr:
  assumes "process_wells rows = Inr res"
  shows "scan_rows init_state rows = Inr (final res)
       \<and> map_err county_summary (sorted_items (wells_by_county (final res))) =
           Inr (counties_json res)
       \<and> map_err index_entry_of (sorted_items (wells_by_county (final res))) =
           Inr (index_json res)
       \<and> county_files res =
           map (\<lambda>(county, wells). (filename county, wells))
             (sorted_items (wells_by_county (final res)))"
proof -
  from assms obtain st county_stats index where
    st: "scan_rows init_state rows = Inr st" and
    cs: "map_err county_summary (sorted_items (wells_by_county st)) = Inr county_stats" and
    ix: "map_err index_entry_of (sorted_items (wells_by_county st)) = Inr index" and
    res: "res = \<lparr>final = st, counties_json = county_stats,
                 county_files = map (\<lambda>(county, wells). (filename county, wells))
                                  (sorted_items (wells_by_county st)),
                 index_json = index\<rparr>"
    unfolding process_wells_def bind_eq_Inr by blast
  show ?thesis
    unfolding res using st cs ix by simp
qed











lemma county_summary_name_count:
  assumes "county_summary item = Inr s"
  shows "name s = fst item \<and> count s = length (snd item)"
  using assms
  by (cases item) (auto simp: county_summary_def Let_def bind_eq_Inr split: if_splits)

lemma index_entry_of_fields:
  assumes "index_entry_of item = Inr e"
  shows "idx_name e = fst item \<and> idx_file e = filename (fst item)
       \<and> idx_count e = length (snd item)"
  using assms
  by (cases item) (auto simp: index_entry_of_def Let_def bind_eq_Inr)

lemma list_all2_map_eq:
  assumes "list_all2 R xs ys" and "\<And>x y. R x y \<Longrightarrow> g y = h x"
  shows "map g ys = map h xs"
  using assms by (induction rule: list_all2_induct) simp_all





















text \<open>The depth samples of a county, and the depths that count in a summary.\<close>

lemma map_of_dict_set: "map_of (dict_set k v d) k = Some v"
proof (induction d)
  case Nil
  show ?case by simp
next
  case (Cons p d)
  obtain k' v' where p: "p = (k', v')" by (cases p)
  show ?case unfolding p using Cons.IH by simp
qed

lemma track_county_depths:
  "map_option entry_depths (map_of (track_county county d cs) county) =
     Some ((case map_of cs county of None \<Rightarrow> [] | Some e \<Rightarrow> entry_depths e)
           @ (case d of None \<Rightarrow> [] | Some n \<Rightarrow> if n \<noteq> 0 then [n] else []))"
  by (simp add: track_county_def Let_def map_of_dict_set split: option.splits)

lemma true_depths_append:
  "true_depths (ws @ [w]) =
     true_depths ws @ (case depth w of None \<Rightarrow> [] | Some n \<Rightarrow> if n \<noteq> 0 then [n] else [])"
  by (simp add: true_depths_def List.map_filter_def split: option.splits)

lemma true_depths_all_zero:
  assumes "\<forall>w \<in> set ws. depth w = Some 0"
  shows "true_depths ws = []"
  using assms by (induction ws) (simp_all add: true_depths_def List.map_filter_def)





section \<open>Evaluation of the examples\<close>

text \<open>The examples are evaluated by rewriting with the definitions.\<close>

lemmas number_eval =
  py_float_str_def py_strip_def is_space_def split_sign_def py_lower_def lower_char_def
  parse_floatnumber_def split_first_def parse_number_def is_digit_def digits_frac_def
  nat_of_digits_def digit_val_def to_float_def py_int_str_def except_value_type_def
  parse_float_def parse_int_def

lemmas row_eval =
  normalize_row_def row_get_def row_get_default_def outside_envelope_def get_county_def
  extract_year_def year_of_date_def py_index_def py_or_def truthy_def round_half_even_def
  Let_def

lemma parse_None: "parse_int None = Inr None" "parse_float None = Inr None"
  by (simp_all add: number_eval)

lemma parse_float_examples:
  "parse_float (Some ''35.5'') = Inr (Some (Fin (71 / 2)))"
  "parse_float (Some ''-120.25'') = Inr (Some (Fin (- 481 / 4)))"
  "parse_float (Some ''36'') = Inr (Some (Fin 36))"
  "parse_float (Some ''-121'') = Inr (Some (Fin (- 121)))"
  "parse_float (Some ''36.25'') = Inr (Some (Fin (145 / 4)))"
  "parse_float (Some ''-119'') = Inr (Some (Fin (- 119)))"
  "parse_float (Some ''50'') = Inr (Some (Fin 50))"
  "parse_float (Some ''35'') = Inr (Some (Fin 35))"
  "parse_float (Some ''-120'') = Inr (Some (Fin (- 120)))"
  by (simp_all add: number_eval)

lemma parse_int_examples:
  "parse_int (Some ''150'') = Inr (Some 150)"
  "parse_int (Some ''0'') = Inr (Some 0)"
  "parse_int (Some ''100'') = Inr (Some 100)"
  "parse_int (Some ''inf'') = Inl OverflowError"
  by (simp_all add: number_eval)

lemmas parse_examples = parse_None parse_float_examples parse_int_examples

lemma normalize_row_kern: "normalize_row row_kern = Inr (Some (''Kern'', well_kern))"
  by (simp add: row_kern_def well_kern_def row_eval parse_examples py_strip_def is_space_def
      py_int_str_def split_sign_def is_digit_def nat_of_digits_def digit_val_def)

lemma normalize_row_blank: "normalize_row row_blank = Inr (Some (''Unknown'', well_blank))"
  by (simp add: row_blank_def well_blank_def row_eval parse_examples py_strip_def is_space_def
      py_int_str_def split_sign_def is_digit_def nat_of_digits_def digit_val_def)

lemma normalize_row_nocounty:
  "normalize_row row_nocounty = Inr (Some (''Unknown'', well_nocounty))"
  by (simp add: row_nocounty_def well_nocounty_def row_eval parse_examples py_strip_def
      is_space_def py_int_str_def split_sign_def is_digit_def nat_of_digits_def digit_val_def)

lemma normalize_row_north: "normalize_row row_north = Inr None"
  by (simp add: row_north_def row_eval parse_examples)

lemma scan_example:
  "scan_rows init_state example_rows =
     Inr \<lparr>total_records = 3, records_with_coords = 3, records_with_depth = 3,
          counties =
            [(''Kern'', \<lparr>entry_count = 1, entry_depths = [150]\<rparr>),
             (''Unknown'', \<lparr>entry_count = 2, entry_depths = [100]\<rparr>)],
          wells_by_county =
            [(''Kern'', [well_kern]), (''Unknown'', [well_blank, well_nocounty])]\<rparr>"
  by (simp add: example_rows_def init_state_def process_row_cases normalize_row_kern
      normalize_row_blank normalize_row_nocounty track_county_def dict_append_Nil
      dict_append_Cons well_kern_def well_blank_def well_nocounty_def)

lemma sorted_example:
  "sorted_items [(''Kern'', [well_kern]), (''Unknown'', [well_blank, well_nocounty])] =
     [(''Kern'', [well_kern]), (''Unknown'', [well_blank, well_nocounty])]"
  by (simp add: sorted_items_def)

lemma filename_Kern: "filename ''Kern'' = ''kern.json''"
  by (simp add: filename_def safe_name_def py_replace_def py_lower_def lower_char_def
      char_of_def bit_0)

lemma filename_examples:
  "filename ''San Luis Obispo'' = ''san-luis-obispo.json''"
  "filename ''St. Helena'' = ''st-helena.json''"
  by (simp_all add: filename_def safe_name_def py_replace_def py_lower_def lower_char_def
      char_of_def bit_0)

lemma summary_example:
  "county_summary (''Kern'', [well_kern]) =
     Inr \<lparr>name = ''Kern'', count = 1, avgDepth = Some 150, minDepth = Some 150,
          maxDepth = Some 150\<rparr>"
  "county_summary (''Unknown'', [well_blank, well_nocounty]) =
     Inr \<lparr>name = ''Unknown'', count = 2, avgDepth = Some 100, minDepth = Some 100,
          maxDepth = Some 100\<rparr>"
  by (simp_all add: county_summary_def true_depths_def List.map_filter_def well_kern_def
      well_blank_def well_nocounty_def py_truediv_def to_float_def round_half_even_def
      py_min_def py_max_def Let_def)

lemma index_example:
  "index_entry_of (''Kern'', [well_kern]) =
     Inr \<lparr>idx_name = ''Kern'', idx_file = ''kern.json'', idx_count = 1,
          idx_bounds = \<lparr>minLat = Fin (71 / 2), maxLat = Fin (71 / 2),
                        minLon = Fin (- 481 / 4), maxLon = Fin (- 481 / 4)\<rparr>\<rparr>"
  "index_entry_of (''Unknown'', [well_blank, well_nocounty]) =
     Inr \<lparr>idx_name = ''Unknown'', idx_file = ''unknown.json'', idx_count = 2,
          idx_bounds = \<lparr>minLat = Fin 36, maxLat = Fin (145 / 4),
                        minLon = Fin (- 121), maxLon = Fin (- 119)\<rparr>\<rparr>"
  by (simp_all add: index_entry_of_def filename_Kern filename_Unknown well_kern_def
      well_blank_def well_nocounty_def py_min_def py_max_def Let_def)

lemma process_wells_example: "process_wells example_rows = Inr example_result"
  by (simp add: process_wells_def scan_example sorted_example summary_example index_example
      filename_Kern filename_Unknown example_result_def)

lemma normalize_row_short: "normalize_row row_short = Inl AttributeError"
  by (simp add: row_short_def row_eval parse_examples)

section \<open>C1: which depth a record carries\<close>

text \<open>
  C1, as amended. For every accepted row and the record made from it, both depth
  fields parse without an exception, and the record's depth is the integer parse
  of the completed-depth field when that parse is present and not 0, and the
  integer parse of the total-drill-depth field otherwise (so the record has no
  depth when that parse is absent too).
\<close>

theorem depth_is_completed_unless_zero:
  assumes "normalize_row row = Inr (Some (county, w))"
  shows "\<exists>total completed.
           parse_int (row_get row ''TOTALDRILLDEPTH'') = Inr total
         \<and> parse_int (row_get row ''TOTALCOMPLETEDDEPTH'') = Inr completed
         \<and> depth w = (case completed of
                        None \<Rightarrow> total
                      | Some c \<Rightarrow> if c \<noteq> 0 then Some c else total)"
proof -
  from normalize_row_accept [OF assms] obtain total completed where
    t: "parse_int (row_get row ''TOTALDRILLDEPTH'') = Inr total" and
    c: "parse_int (row_get row ''TOTALCOMPLETEDDEPTH'') = Inr completed" and
    d: "depth w = py_or completed total"
    by blast
  have "py_or completed total =
        (case completed of None \<Rightarrow> total | Some c \<Rightarrow> if c \<noteq> 0 then Some c else total)"
    by (simp add: py_or_def truthy_def split: option.splits)
  with t c d show ?thesis by simp
qed

theorem depth_is_completed_unless_zero_witness:
  "normalize_row row_blank = Inr (Some (''Unknown'', well_blank))
   \<and> (\<exists>total completed.
        parse_int (row_get row_blank ''TOTALDRILLDEPTH'') = Inr total
      \<and> parse_int (row_get row_blank ''TOTALCOMPLETEDDEPTH'') = Inr completed
      \<and> depth well_blank = (case completed of
                              None \<Rightarrow> total
                            | Some c \<Rightarrow> if c \<noteq> 0 then Some c else total))"
  using depth_is_completed_unless_zero [OF normalize_row_blank] normalize_row_blank
  by simp

text \<open>
  The claim as stated fails on \<open>row_kern\<close>: its completed-depth field is present
  and parses to 0, yet the record carries the total drill depth, 150.
\<close>

theorem depth_completed_zero_counterexample:
  "normalize_row row_kern = Inr (Some (''Kern'', well_kern))
   \<and> parse_int (row_get row_kern ''TOTALCOMPLETEDDEPTH'') = Inr (Some 0)
   \<and> parse_int (row_get row_kern ''TOTALDRILLDEPTH'') = Inr (Some 150)
   \<and> depth well_kern = Some 150"
  by (simp add: normalize_row_kern)
     (simp add: row_kern_def well_kern_def row_get_def parse_examples)

section \<open>C2: the depth statistics\<close>




section \<open>C3: the envelope\<close>



section \<open>C4: the record counts agree\<close>



section \<open>C5: the bounding boxes\<close>



section \<open>C6: which rows are accepted\<close>

text \<open>
  C6 says that a row is accepted if and only if both coordinates parse and lie
  inside the envelope. The coordinates of \<open>row_inf\<close> parse to 35 and -120, inside
  the envelope, and its drill depth reads \<open>inf\<close>: \<open>float\<close> accepts the text,
  \<open>int\<close> raises \<open>OverflowError\<close> on the infinity, \<open>parse_int\<close> catches only
  \<open>ValueError\<close> and \<open>TypeError\<close>, and the exception ends the run. (A row whose
  county cell is \<open>None\<close> ends the run as well, see \<open>normalize_row_short\<close>;
  there is no third way, see \<open>normalize_row_error\<close>.) The other half of the claim
  holds: a row is rejected exactly when a coordinate has no value or the pair lies
  outside the envelope (\<open>normalize_row_reject_iff\<close>), and parsing a coordinate
  raises nothing (\<open>parse_float_total\<close>).
\<close>

theorem infinite_depth_raises:
  "parse_float (row_get row_inf ''DECIMALLATITUDE'') = Inr (Some (Fin 35))
   \<and> parse_float (row_get row_inf ''DECIMALLONGITUDE'') = Inr (Some (Fin (- 120)))
   \<and> float_le (Fin 32) (Fin 35) \<and> float_le (Fin 35) (Fin 42)
   \<and> float_le (Fin (- 125)) (Fin (- 120)) \<and> float_le (Fin (- 120)) (Fin (- 114))
   \<and> parse_int (row_get row_inf ''TOTALDRILLDEPTH'') = Inl OverflowError
   \<and> normalize_row row_inf = Inl OverflowError
   \<and> process_wells [row_inf] = Inl OverflowError"
  by (simp add: row_inf_def row_eval parse_examples process_wells_def process_row_def)

section \<open>C7: the year of a date\<close>

text \<open>
  C7. The year extraction returns for every row: no exception leaves it. For a
  date of at least 4 characters: when it contains a slash and splits on slashes into
  exactly 3 parts, the year is the integer parse of the third part, absent when
  that part is no integer; when it contains a slash and splits otherwise, the year
  is absent; when it contains no slash but a hyphen, the year is the integer parse
  of the first 4 characters, absent when they are no integer; with neither, the year
  is absent. A shorter date, an empty one, a \<open>None\<close> cell and a missing field leave
  the year absent.
\<close>

theorem year_extraction:
  "(\<exists>y. extract_year row = Inr y)
   \<and> (\<forall>s. row ''DATEWORKENDED'' = Some (Some s) \<and> 4 \<le> length s \<and> CHR ''/'' \<in> set s
          \<and> length (py_split CHR ''/'' s) = 3 \<longrightarrow>
        extract_year row =
          Inr (case py_int_str (py_split CHR ''/'' s ! 2) of
                 Inl e \<Rightarrow> None
               | Inr y \<Rightarrow> Some y))
   \<and> (\<forall>s. row ''DATEWORKENDED'' = Some (Some s) \<and> 4 \<le> length s \<and> CHR ''/'' \<in> set s
          \<and> length (py_split CHR ''/'' s) \<noteq> 3 \<longrightarrow>
        extract_year row = Inr None)
   \<and> (\<forall>s. row ''DATEWORKENDED'' = Some (Some s) \<and> 4 \<le> length s \<and> CHR ''/'' \<notin> set s
          \<and> CHR ''-'' \<in> set s \<longrightarrow>
        extract_year row =
          Inr (case py_int_str (take 4 s) of Inl e \<Rightarrow> None | Inr y \<Rightarrow> Some y))
   \<and> (\<forall>s. row ''DATEWORKENDED'' = Some (Some s) \<and> 4 \<le> length s \<and> CHR ''/'' \<notin> set s
          \<and> CHR ''-'' \<notin> set s \<longrightarrow>
        extract_year row = Inr None)
   \<and> (\<forall>s. row ''DATEWORKENDED'' = Some (Some s) \<and> length s < 4 \<longrightarrow>
        extract_year row = Inr None)
   \<and> (row ''DATEWORKENDED'' = None \<or> row ''DATEWORKENDED'' = Some None \<longrightarrow>
        extract_year row = Inr None)"
proof -
  have total: "\<exists>y. extract_year row = Inr y" by (rule extract_year_total)
  have slash3: "extract_year row =
          Inr (case py_int_str (py_split CHR ''/'' s ! 2) of
                 Inl e \<Rightarrow> None
               | Inr y \<Rightarrow> Some y)"
    if "row ''DATEWORKENDED'' = Some (Some s) \<and> 4 \<le> length s \<and> CHR ''/'' \<in> set s
          \<and> length (py_split CHR ''/'' s) = 3" for s
    using that by (simp add: extract_year_cell)
  have slash_other: "extract_year row = Inr None"
    if "row ''DATEWORKENDED'' = Some (Some s) \<and> 4 \<le> length s \<and> CHR ''/'' \<in> set s
          \<and> length (py_split CHR ''/'' s) \<noteq> 3" for s
    using that by (simp add: extract_year_cell)
  have hyphen: "extract_year row =
          Inr (case py_int_str (take 4 s) of Inl e \<Rightarrow> None | Inr y \<Rightarrow> Some y)"
    if "row ''DATEWORKENDED'' = Some (Some s) \<and> 4 \<le> length s \<and> CHR ''/'' \<notin> set s
          \<and> CHR ''-'' \<in> set s" for s
    using that by (simp add: extract_year_cell)
  have neither: "extract_year row = Inr None"
    if "row ''DATEWORKENDED'' = Some (Some s) \<and> 4 \<le> length s \<and> CHR ''/'' \<notin> set s
          \<and> CHR ''-'' \<notin> set s" for s
    using that by (simp add: extract_year_cell)
  have short: "extract_year row = Inr None"
    if "row ''DATEWORKENDED'' = Some (Some s) \<and> length s < 4" for s
    using that by (simp add: extract_year_short)
  have no_cell: "extract_year row = Inr None"
    if "row ''DATEWORKENDED'' = None \<or> row ''DATEWORKENDED'' = Some None"
    using that by (rule extract_year_no_cell)
  from total slash3 slash_other hyphen neither short no_cell show ?thesis
    by (intro conjI allI impI)
qed

theorem year_extraction_witness:
  "extract_year [''DATEWORKENDED'' \<mapsto> Some ''03/15/2010''] = Inr (Some 2010)
   \<and> extract_year [''DATEWORKENDED'' \<mapsto> Some ''2010-03-15''] = Inr (Some 2010)
   \<and> extract_year [''DATEWORKENDED'' \<mapsto> Some ''not-a-date''] = Inr None
   \<and> extract_year [''DATEWORKENDED'' \<mapsto> Some ''03/2010''] = Inr None
   \<and> extract_year [''DATEWORKENDED'' \<mapsto> Some ''10''] = Inr None
   \<and> extract_year [''DATEWORKENDED'' \<mapsto> Some []] = Inr None
   \<and> extract_year Map.empty = Inr None"
proof -
  have split1: "py_split CHR ''/'' ''03/15/2010'' = [''03'', ''15'', ''2010'']"
    by simp
  have int1: "py_int_str ''2010'' = Inr 2010"
    by (simp add: py_int_str_def py_strip_def is_space_def split_sign_def is_digit_def
        nat_of_digits_def digit_val_def)
  have int2: "py_int_str ''not-'' = Inl ValueError"
    by (simp add: py_int_str_def py_strip_def is_space_def split_sign_def is_digit_def)
  have split2: "py_split CHR ''/'' ''03/2010'' = [''03'', ''2010'']"
    by simp
  have 1: "extract_year [''DATEWORKENDED'' \<mapsto> Some ''03/15/2010''] = Inr (Some 2010)"
    using year_extraction [of "[''DATEWORKENDED'' \<mapsto> Some ''03/15/2010'']"]
    by (simp add: split1 int1)
  have 2: "extract_year [''DATEWORKENDED'' \<mapsto> Some ''2010-03-15''] = Inr (Some 2010)"
    using year_extraction [of "[''DATEWORKENDED'' \<mapsto> Some ''2010-03-15'']"]
    by (simp add: int1)
  have 3: "extract_year [''DATEWORKENDED'' \<mapsto> Some ''not-a-date''] = Inr None"
    using year_extraction [of "[''DATEWORKENDED'' \<mapsto> Some ''not-a-date'']"]
    by (simp add: int2)
  have 4: "extract_year [''DATEWORKENDED'' \<mapsto> Some ''03/2010''] = Inr None"
    using year_extraction [of "[''DATEWORKENDED'' \<mapsto> Some ''03/2010'']"]
    by (simp add: split2)
  have 5: "extract_year [''DATEWORKENDED'' \<mapsto> Some ''10''] = Inr None"
    using year_extraction [of "[''DATEWORKENDED'' \<mapsto> Some ''10'']"]
    by simp
  have 6: "extract_year [''DATEWORKENDED'' \<mapsto> Some []] = Inr None"
    using year_extraction [of "[''DATEWORKENDED'' \<mapsto> Some []]"]
    by simp
  have 7: "extract_year Map.empty = Inr None"
    using year_extraction [of Map.empty]
    by simp
  from 1 2 3 4 5 6 7 show ?thesis by blast
qed

section \<open>C8: rows without a county name\<close>



section \<open>C9: the file names\<close>

text \<open>
  C9. The files are written in the order of the regions of \<open>counties.json\<close> and
  \<open>index.json\<close>. The name of each county file is the region name in lowercase, with
  spaces replaced by hyphens and periods removed, followed by \<open>.json\<close>
  (\<open>spec_filename\<close>), and the \<open>file\<close> field of the region's index entry is
  exactly that name.
\<close>

theorem file_names_follow_region_names:
  assumes "process_wells rows = Inr res"
  shows "map idx_name (index_json res) = map name (counties_json res)
       \<and> map fst (county_files res) = map spec_filename (map name (counties_json res))
       \<and> map idx_file (index_json res) = map fst (county_files res)
       \<and> map name (counties_json res) =
           map fst (sorted_items (wells_by_county (final res)))"
proof -
  let ?items = "sorted_items (wells_by_county (final res))"
  from process_wells_Inr [OF assms] have
    cs: "map_err county_summary ?items = Inr (counties_json res)" and
    ix: "map_err index_entry_of ?items = Inr (index_json res)" and
    files: "county_files res = map (\<lambda>(county, wells). (filename county, wells)) ?items"
    by simp_all
  have names: "map name (counties_json res) = map fst ?items"
    by (rule list_all2_map_eq [OF map_err_Inr [OF cs]])
       (simp add: county_summary_name_count)
  have inames: "map idx_name (index_json res) = map fst ?items"
    by (rule list_all2_map_eq [OF map_err_Inr [OF ix]])
       (simp add: index_entry_of_fields)
  have ifiles: "map idx_file (index_json res) = map (\<lambda>item. filename (fst item)) ?items"
    by (rule list_all2_map_eq [OF map_err_Inr [OF ix]])
       (simp add: index_entry_of_fields)
  have ffiles: "map fst (county_files res) = map (\<lambda>item. filename (fst item)) ?items"
    unfolding files by (simp add: case_prod_beta)
  have "map (\<lambda>item. filename (fst item)) ?items = map spec_filename (map fst ?items)"
    by (simp add: filename_spec)
  with names inames ifiles ffiles show ?thesis by simp
qed

theorem file_names_follow_region_names_witness:
  "process_wells example_rows = Inr example_result
   \<and> (map idx_name (index_json example_result) = map name (counties_json example_result)
      \<and> map fst (county_files example_result) =
          map spec_filename (map name (counties_json example_result))
      \<and> map idx_file (index_json example_result) = map fst (county_files example_result)
      \<and> map name (counties_json example_result) =
          map fst (sorted_items (wells_by_county (final example_result))))"
  using file_names_follow_region_names [OF process_wells_example] process_wells_example
  by (rule conjI [rotated])

section \<open>C10: a depth of 0\<close>

text \<open>
  C10. Take an accepted row whose record has the depth 0. The serialized record
  keeps the field \<open>depth\<close> with the value 0; the row is counted in
  \<open>records_with_depth\<close>; the depth list of its county in \<open>stats\<close> stays as it
  was (empty for a new county); the depths that enter the statistics of a bucket do
  not change when the record is appended; and a region all of whose records have
  the depth 0 has null \<open>avgDepth\<close>, \<open>minDepth\<close> and \<open>maxDepth\<close>.
\<close>

theorem zero_depth_kept_but_not_sampled:
  assumes acc: "normalize_row row = Inr (Some (county, w))"
    and zero: "depth w = Some 0"
  shows "(''depth'', VInt 0) \<in> set (well_items w)
       \<and> (\<exists>st'. process_row st row = Inr st'
              \<and> records_with_depth st' = records_with_depth st + 1
              \<and> map_option entry_depths (map_of (counties st') county) =
                  Some (case map_of (counties st) county of
                          None \<Rightarrow> []
                        | Some e \<Rightarrow> entry_depths e))
       \<and> true_depths (ws @ [w]) = true_depths ws
       \<and> (\<forall>c zs. (\<forall>z \<in> set zs. depth z = Some 0) \<longrightarrow>
            county_summary (c, zs) =
              Inr \<lparr>name = c, count = length zs, avgDepth = None, minDepth = None,
                   maxDepth = None\<rparr>)"
proof -
  have items: "(''depth'', VInt 0) \<in> set (well_items w)"
    using zero by (simp add: well_items_def List.map_filter_def)
  have step: "\<exists>st'. process_row st row = Inr st'
              \<and> records_with_depth st' = records_with_depth st + 1
              \<and> map_option entry_depths (map_of (counties st') county) =
                  Some (case map_of (counties st) county of
                          None \<Rightarrow> []
                        | Some e \<Rightarrow> entry_depths e)"
    using acc zero
    by (simp add: process_row_cases track_county_depths del: map_option_eq_Some)
  have sample: "true_depths (ws @ [w]) = true_depths ws"
    using zero by (simp add: true_depths_append)
  have region: "county_summary (c, zs) =
                  Inr \<lparr>name = c, count = length zs, avgDepth = None, minDepth = None,
                       maxDepth = None\<rparr>"
    if "\<forall>z \<in> set zs. depth z = Some 0" for c zs
    using true_depths_all_zero [OF that] by (simp add: county_summary_def)
  from items step sample region show ?thesis by blast
qed

theorem zero_depth_kept_but_not_sampled_witness:
  "normalize_row row_blank = Inr (Some (''Unknown'', well_blank))
   \<and> depth well_blank = Some 0
   \<and> well_items well_blank =
       [(''lat'', VFloat (Fin 36)), (''lon'', VFloat (Fin (- 121))), (''depth'', VInt 0),
        (''year'', VInt 2010)]
   \<and> (\<exists>st'. process_row init_state row_blank = Inr st'
          \<and> records_with_depth st' = records_with_depth init_state + 1
          \<and> map_option entry_depths (map_of (counties st') ''Unknown'') = Some [])
   \<and> true_depths ([] @ [well_blank]) = true_depths []
   \<and> county_summary (''Unknown'', [well_blank]) =
       Inr \<lparr>name = ''Unknown'', count = 1, avgDepth = None, minDepth = None,
            maxDepth = None\<rparr>"
proof -
  have zero: "depth well_blank = Some 0" by (simp add: well_blank_def)
  have items: "well_items well_blank =
       [(''lat'', VFloat (Fin 36)), (''lon'', VFloat (Fin (- 121))), (''depth'', VInt 0),
        (''year'', VInt 2010)]"
    by (simp add: well_items_def List.map_filter_def well_blank_def)
  note facts = zero_depth_kept_but_not_sampled
    [OF normalize_row_blank zero, of init_state "[]"]
  from facts have step: "\<exists>st'. process_row init_state row_blank = Inr st'
          \<and> records_with_depth st' = records_with_depth init_state + 1
          \<and> map_option entry_depths (map_of (counties st') ''Unknown'') = Some []"
    by (simp add: init_state_def del: map_option_eq_Some)
  from facts have sample: "true_depths ([] @ [well_blank]) = true_depths []"
    by blast
  from facts have "\<forall>c zs. (\<forall>z \<in> set zs. depth z = Some 0) \<longrightarrow>
            county_summary (c, zs) =
              Inr \<lparr>name = c, count = length zs, avgDepth = None, minDepth = None,
                   maxDepth = None\<rparr>"
    by blast
  then have "county_summary (''Unknown'', [well_blank]) =
       Inr \<lparr>name = ''Unknown'', count = length [well_blank], avgDepth = None,
            minDepth = None, maxDepth = None\<rparr>"
    using zero by simp
  then have region: "county_summary (''Unknown'', [well_blank]) =
       Inr \<lparr>name = ''Unknown'', count = 1, avgDepth = None, minDepth = None,
            maxDepth = None\<rparr>"
    by simp
  from normalize_row_blank zero items step sample region show ?thesis by blast
qed

end
